theory Spec2Isabelle
  imports Complex_Main
begin

section \<open>TresoldSeg: parameter node, widget and logic\<close>

text \<open>
  A shallow embedding of \<^verbatim>\<open>src/TresoldSeg/TresoldSeg.py\<close>. Each method of the module is a
  function on an explicit state; a method that can raise returns the error beside the
  state reached when it was raised. Names follow the source; a leading underscore is
  dropped (\<^verbatim>\<open>_parameterNode\<close> is \<open>parameterNode\<close>, \<^verbatim>\<open>_checkCanApply\<close> is \<open>checkCanApply\<close>).
  A Python float is read as the real number it denotes (the values here are finite).
  The module passes floats on unchanged everywhere but at line 144, whose addition
  rounds; that rounding is written out in \<open>onThresholdSliderChanged\<close>. Logging and the
  wall-clock timing of \<^verbatim>\<open>process\<close> have no effect on the state and are left out.
\<close>

subsection \<open>Data\<close>

text \<open>A volume node of the scene, known here by the identifier \<^verbatim>\<open>GetID()\<close> returns.\<close>

datatype vtkMRMLScalarVolumeNode = VolumeNode (GetID: string)

text \<open>
  The exceptions: \<^verbatim>\<open>raise ValueError(...)\<close> of line 172 with its message, and an
  exception thrown by the engine call with its text. \<open>str_error\<close> is Python's \<^verbatim>\<open>str(e)\<close>.
\<close>

datatype error = ValueError string | EngineInvocationFailure string

fun str_error :: "error \<Rightarrow> string" where
  "str_error (ValueError m) = m"
| "str_error (EngineInvocationFailure m) = m"

text \<open>
  The class \<^verbatim>\<open>TresoldSegParameterNode\<close> (lines 47 to 53). The two volume fields hold a
  node or \<^verbatim>\<open>None\<close>.
\<close>

record TresoldSegParameterNode =
  inputVolume :: "vtkMRMLScalarVolumeNode option"
  lowerThreshold :: real
  upperThreshold :: real
  invertThreshold :: bool
  thresholdedVolume :: "vtkMRMLScalarVolumeNode option"

text \<open>The controls of \<^verbatim>\<open>self.ui\<close> that the module reads or writes.\<close>

record TresoldSeg_ui =
  inputSelector_currentNode :: "vtkMRMLScalarVolumeNode option"
  outputSelector_currentNode :: "vtkMRMLScalarVolumeNode option"
  lowerThresholdSlider_value :: real
  upperThresholdSlider_value :: real
  invertOutputCheckBox_checked :: bool
  applyButton_toolTip :: string
  applyButton_enabled :: bool

text \<open>The dictionary \<^verbatim>\<open>cliParams\<close> of \<^verbatim>\<open>process\<close> (lines 179 to 185), one field per key.\<close>

record cliParams =
  InputVolume :: string
  OutputVolume :: string
  LowerThreshold :: real
  UpperThreshold :: real
  ThresholdType :: string

text \<open>
  What the engine reports when it completes, and what an engine call comes to: it
  returns with the status reported, or it throws.
\<close>

datatype cli_status = Completed | CompletedWithErrors

datatype engine_outcome = Reports cli_status | Throws string

text \<open>Observations held by the widget: the observed object, the event, the method called.\<close>

datatype observed = MrmlScene | ParameterNodeObj nat

datatype vtkEvent = ModifiedEvent | StartCloseEvent | EndCloseEvent

datatype callback = CheckCanApply | OnSceneStartClose | OnSceneEndClose

text \<open>
  The state the module works on. Parameter nodes live in a store and the widget holds a
  reference, as in the source where the scene and the widget share the node.
  \<^item> \<open>ui\<close>, \<open>parameterNode\<close>, \<open>parameterNodeGuiTag\<close>: the widget's attributes;
  \<^item> \<open>observations\<close>: the widget's observer registry;
  \<^item> \<open>parameterNodes\<close>: the store of parameter nodes, by reference;
  \<^item> \<open>guiConnections\<close>: the live GUI connections, as (parameter node, tag);
  \<^item> \<open>mrmlScene\<close>: the engine tracking nodes present in the scene;
  \<^item> \<open>cliRuns\<close>: every request handed to the engine, in order, with the
    \<^verbatim>\<open>wait_for_completion\<close> and \<^verbatim>\<open>update_display\<close> flags and the outcome of the call;
  \<^item> \<open>errorDisplays\<close>: the messages shown by \<^verbatim>\<open>tryWithErrorDisplay\<close>.
\<close>

record world =
  ui :: TresoldSeg_ui
  parameterNode :: "nat option"
  parameterNodeGuiTag :: "nat option"
  observations :: "(observed \<times> vtkEvent \<times> callback) list"
  parameterNodes :: "nat \<Rightarrow> TresoldSegParameterNode"
  guiConnections :: "(nat \<times> nat) list"
  mrmlScene :: "nat list"
  cliRuns :: "(cliParams \<times> bool \<times> bool \<times> engine_outcome) list"
  errorDisplays :: "string list"

subsection \<open>The host application's interface\<close>

text \<open>A handle that occurs nowhere in the given list.\<close>

definition fresh :: "nat list \<Rightarrow> nat" where
  "fresh xs = Suc (fold max xs 0)"

text \<open>
  Modelled from the spec: \<^verbatim>\<open>slicer.cli.run\<close> is the host application's and is not in
  the source. Section 6: the engine accepts a request, the caller waits for completion,
  the engine returns success or failure, and the invocation yields a disposable tracking
  handle. Section 3: the tracking object is created at invocation start. Section 7: the
  engine reports failure or throws. The engine is the parameter \<open>engine\<close>, giving the
  outcome of a request. The run adds its tracking node to the scene and hands the
  request to the engine; when the engine reports, the run returns the tracking node, and
  when the engine throws, the run raises and returns nothing. The parameter \<open>edits\<close>
  stands for whatever changes the controls and the parameter nodes undergo while the
  caller waits. What the engine writes into the output volume is outside this model.
\<close>

definition cli_run ::
  "(cliParams \<Rightarrow> engine_outcome) \<Rightarrow>
   (TresoldSeg_ui \<times> (nat \<Rightarrow> TresoldSegParameterNode) \<Rightarrow> TresoldSeg_ui \<times> (nat \<Rightarrow> TresoldSegParameterNode)) \<Rightarrow>
   cliParams \<Rightarrow> bool \<Rightarrow> bool \<Rightarrow> world \<Rightarrow> (error + nat) \<times> world" where
  "cli_run engine edits parameters wait_for_completion update_display w =
     (let cliNode = fresh (mrmlScene w);
          e = edits (ui w, parameterNodes w);
          w1 = w\<lparr>mrmlScene := mrmlScene w @ [cliNode],
                 cliRuns := cliRuns w @ [(parameters, wait_for_completion, update_display, engine parameters)],
                 ui := fst e,
                 parameterNodes := snd e\<rparr>
      in (case engine parameters of
            Reports status \<Rightarrow> (Inr cliNode, w1)
          | Throws m \<Rightarrow> (Inl (EngineInvocationFailure m), w1)))"

text \<open>
  Modelled from the spec: \<^verbatim>\<open>slicer.mrmlScene.RemoveNode\<close> is the host application's and is
  not in the source. Section 3: the tracking object is released.
\<close>

definition RemoveNode :: "nat \<Rightarrow> world \<Rightarrow> world" where
  "RemoveNode n w = w\<lparr>mrmlScene := removeAll n (mrmlScene w)\<rparr>"

text \<open>
  Modelled from the spec: \<^verbatim>\<open>connectGui\<close> and \<^verbatim>\<open>disconnectGui\<close> of the parameter node are
  the host application's and are not in the source. Sections 3 and 4.3: connecting
  returns a token and records the binding; disconnecting removes the binding of that
  token, and doing it again (or with no token) does nothing.
\<close>

definition connectGui :: "nat \<Rightarrow> world \<Rightarrow> nat \<times> world" where
  "connectGui p w =
     (let tag = fresh (map snd (guiConnections w))
      in (tag, w\<lparr>guiConnections := guiConnections w @ [(p, tag)]\<rparr>))"

definition disconnectGui :: "nat \<Rightarrow> nat option \<Rightarrow> world \<Rightarrow> world" where
  "disconnectGui p tag w =
     (case tag of
        None \<Rightarrow> w
      | Some t \<Rightarrow> w\<lparr>guiConnections := removeAll (p, t) (guiConnections w)\<rparr>)"

text \<open>
  Modelled from the spec: \<^verbatim>\<open>addObserver\<close> and \<^verbatim>\<open>removeObserver\<close> of the observation
  mixin are the host application's and are not in the source. Sections 3 and 4.2: a
  subscription is (observed object, event, callback); removing one that is absent does
  nothing. A subscription already present is not registered twice.
\<close>

definition addObserver :: "observed \<Rightarrow> vtkEvent \<Rightarrow> callback \<Rightarrow> world \<Rightarrow> world" where
  "addObserver obj event method w =
     (if (obj, event, method) \<in> set (observations w) then w
      else w\<lparr>observations := observations w @ [(obj, event, method)]\<rparr>)"

definition removeObserver :: "observed \<Rightarrow> vtkEvent \<Rightarrow> callback \<Rightarrow> world \<Rightarrow> world" where
  "removeObserver obj event method w =
     w\<lparr>observations := removeAll (obj, event, method) (observations w)\<rparr>"

text \<open>
  Assignment to a threshold field of the parameter node. Both fields are declared
  \<^verbatim>\<open>Annotated[float, WithinRange(-100, 500)]\<close> (lines 50 and 51). The validator and the
  assignment it guards are the host application's and are not in the source: the
  parameter \<open>WithinRange\<close> gives, for the declared bounds and the value assigned, the
  value that is stored or the error that is raised. The events an assignment raises are
  the host application's as well and are outside this model: an assignment changes the
  field and nothing else.
\<close>

definition set_lowerThreshold ::
  "(real \<Rightarrow> real \<Rightarrow> real \<Rightarrow> error + real) \<Rightarrow> nat \<Rightarrow> real \<Rightarrow> world \<Rightarrow> (error + unit) \<times> world" where
  "set_lowerThreshold WithinRange p v w =
     (case WithinRange (- 100) 500 v of
        Inl e \<Rightarrow> (Inl e, w)
      | Inr a \<Rightarrow>
          (Inr (), w\<lparr>parameterNodes := (parameterNodes w)(p := (parameterNodes w p)\<lparr>lowerThreshold := a\<rparr>)\<rparr>))"

definition set_upperThreshold ::
  "(real \<Rightarrow> real \<Rightarrow> real \<Rightarrow> error + real) \<Rightarrow> nat \<Rightarrow> real \<Rightarrow> world \<Rightarrow> (error + unit) \<times> world" where
  "set_upperThreshold WithinRange p v w =
     (case WithinRange (- 100) 500 v of
        Inl e \<Rightarrow> (Inl e, w)
      | Inr a \<Rightarrow>
          (Inr (), w\<lparr>parameterNodes := (parameterNodes w)(p := (parameterNodes w p)\<lparr>upperThreshold := a\<rparr>)\<rparr>))"

text \<open>
  Modelled from the spec: the policy of section 7 for an out-of-range assignment, clamp
  silently. It is one possible value of the parameter \<open>WithinRange\<close>; the validator itself
  is not in the source.
\<close>

definition clamp_silently :: "real \<Rightarrow> real \<Rightarrow> real \<Rightarrow> error + real" where
  "clamp_silently lo hi v = Inr (max lo (min hi v))"

subsection \<open>TresoldSegLogic\<close>

text \<open>
  \<^verbatim>\<open>TresoldSegLogic.process\<close> (lines 164 to 191). The arguments that share a name with a
  field of the parameter node carry a prime. There is no \<^verbatim>\<open>try\<close> around line 186: when the
  run raises, the exception leaves \<open>process\<close> and line 188 is not reached.
\<close>

definition process ::
  "(cliParams \<Rightarrow> engine_outcome) \<Rightarrow>
   (TresoldSeg_ui \<times> (nat \<Rightarrow> TresoldSegParameterNode) \<Rightarrow> TresoldSeg_ui \<times> (nat \<Rightarrow> TresoldSegParameterNode)) \<Rightarrow>
   vtkMRMLScalarVolumeNode option \<Rightarrow> vtkMRMLScalarVolumeNode option \<Rightarrow>
   real \<Rightarrow> real \<Rightarrow> bool \<Rightarrow> bool \<Rightarrow> world \<Rightarrow> (error + unit) \<times> world" where
  "process engine edits inputVolume' outputVolume' lowerThreshold' upperThreshold' invert showResult w =
     (if inputVolume' = None \<or> outputVolume' = None
      then (Inl (ValueError ''Input or output volume is invalid''), w)
      else
        (let params = \<lparr>InputVolume = GetID (the inputVolume'),
                       OutputVolume = GetID (the outputVolume'),
                       LowerThreshold = lowerThreshold',
                       UpperThreshold = upperThreshold',
                       ThresholdType = (if \<not> invert then ''Between'' else ''Outside'')\<rparr>;
             r = cli_run engine edits params True showResult w
         in (case fst r of
               Inl e \<Rightarrow> (Inl e, snd r)
             | Inr cliNode \<Rightarrow> (Inr (), RemoveNode cliNode (snd r)))))"

subsection \<open>TresoldSegWidget\<close>

text \<open>
  \<^verbatim>\<open>TresoldSegWidget._checkCanApply\<close> (lines 124 to 130). A parameter node and a volume
  node are objects, true whenever they are not \<^verbatim>\<open>None\<close>.
\<close>

definition checkCanApply :: "world \<Rightarrow> world" where
  "checkCanApply w =
     (if (case parameterNode w of
            None \<Rightarrow> False
          | Some p \<Rightarrow> inputVolume (parameterNodes w p) \<noteq> None \<and>
                      thresholdedVolume (parameterNodes w p) \<noteq> None)
      then w\<lparr>ui := (ui w)\<lparr>applyButton_toolTip := ''Compute output volume'',
                            applyButton_enabled := True\<rparr>\<rparr>
      else w\<lparr>ui := (ui w)\<lparr>applyButton_toolTip := ''Select input and output volume nodes'',
                            applyButton_enabled := False\<rparr>\<rparr>)"

text \<open>\<^verbatim>\<open>TresoldSegWidget.setParameterNode\<close> (lines 114 to 122).\<close>

definition setParameterNode :: "nat option \<Rightarrow> world \<Rightarrow> world" where
  "setParameterNode inputParameterNode w =
     (let w1 = (case parameterNode w of
                  None \<Rightarrow> w
                | Some p \<Rightarrow>
                    removeObserver (ParameterNodeObj p) ModifiedEvent CheckCanApply
                      (disconnectGui p (parameterNodeGuiTag w) w));
          w2 = w1\<lparr>parameterNode := inputParameterNode\<rparr>
      in (case inputParameterNode of
            None \<Rightarrow> w2
          | Some p \<Rightarrow>
              (let c = connectGui p w2;
                   w3 = (snd c)\<lparr>parameterNodeGuiTag := Some (fst c)\<rparr>
               in checkCanApply (addObserver (ParameterNodeObj p) ModifiedEvent CheckCanApply w3))))"

text \<open>\<^verbatim>\<open>TresoldSegWidget.exit\<close> (lines 95 to 99).\<close>

definition exit :: "world \<Rightarrow> world" where
  "exit w =
     (case parameterNode w of
        None \<Rightarrow> w
      | Some p \<Rightarrow>
          removeObserver (ParameterNodeObj p) ModifiedEvent CheckCanApply
            ((disconnectGui p (parameterNodeGuiTag w) w)\<lparr>parameterNodeGuiTag := None\<rparr>))"

text \<open>\<^verbatim>\<open>TresoldSegWidget.onSceneStartClose\<close> (lines 101 and 102).\<close>

definition onSceneStartClose :: "world \<Rightarrow> world" where
  "onSceneStartClose w = setParameterNode None w"

text \<open>
  The slider handlers (lines 132 to 144). An error raised by the first assignment of
  \<^verbatim>\<open>onThresholdSliderChanged\<close> leaves the second one undone. The sum \<^verbatim>\<open>value + 100\<close> of
  line 144 is a sum of doubles: the exact sum, rounded to a double. The rounding is the
  parameter \<open>rnd\<close>, from the exact sum to the double that is its result, so that what is
  proved holds for the rounding of the machine, whatever it does to a given sum.
\<close>

definition onLowerThresholdChanged ::
  "(real \<Rightarrow> real \<Rightarrow> real \<Rightarrow> error + real) \<Rightarrow> real \<Rightarrow> world \<Rightarrow> (error + unit) \<times> world" where
  "onLowerThresholdChanged WithinRange v w =
     (case parameterNode w of
        None \<Rightarrow> (Inr (), w)
      | Some p \<Rightarrow> set_lowerThreshold WithinRange p v w)"

definition onUpperThresholdChanged ::
  "(real \<Rightarrow> real \<Rightarrow> real \<Rightarrow> error + real) \<Rightarrow> real \<Rightarrow> world \<Rightarrow> (error + unit) \<times> world" where
  "onUpperThresholdChanged WithinRange v w =
     (case parameterNode w of
        None \<Rightarrow> (Inr (), w)
      | Some p \<Rightarrow> set_upperThreshold WithinRange p v w)"

definition onThresholdSliderChanged ::
  "(real \<Rightarrow> real \<Rightarrow> real \<Rightarrow> error + real) \<Rightarrow> (real \<Rightarrow> real) \<Rightarrow> real \<Rightarrow> world \<Rightarrow>
   (error + unit) \<times> world" where
  "onThresholdSliderChanged WithinRange rnd v w =
     (case parameterNode w of
        None \<Rightarrow> (Inr (), w)
      | Some p \<Rightarrow>
          (case set_lowerThreshold WithinRange p v w of
             (Inl e, w1) \<Rightarrow> (Inl e, w1)
           | (Inr u, w1) \<Rightarrow> set_upperThreshold WithinRange p (rnd (v + 100)) w1))"

text \<open>
  \<^verbatim>\<open>TresoldSegWidget.onApplyButton\<close> (lines 146 to 154). The arguments are the values of
  the controls; \<^verbatim>\<open>showResult\<close> keeps its default.

  Modelled from the spec: \<^verbatim>\<open>slicer.util.tryWithErrorDisplay\<close> is the host application's
  and is not in the source. Section 7: a failure is surfaced to the caller as a rejected
  call with a user-visible failure message. When the body raises, the message of line
  147 is shown, followed by an empty line and the text of the exception, and the
  exception is raised again.
\<close>

definition onApplyButton ::
  "(cliParams \<Rightarrow> engine_outcome) \<Rightarrow>
   (TresoldSeg_ui \<times> (nat \<Rightarrow> TresoldSegParameterNode) \<Rightarrow> TresoldSeg_ui \<times> (nat \<Rightarrow> TresoldSegParameterNode)) \<Rightarrow>
   world \<Rightarrow> (error + unit) \<times> world" where
  "onApplyButton engine edits w =
     (let r = process engine edits
                (inputSelector_currentNode (ui w))
                (outputSelector_currentNode (ui w))
                (lowerThresholdSlider_value (ui w))
                (upperThresholdSlider_value (ui w))
                (invertOutputCheckBox_checked (ui w))
                True w
      in (case fst r of
            Inl e \<Rightarrow>
              (Inl e,
               (snd r)\<lparr>errorDisplays := errorDisplays (snd r) @
                  [''Failed to compute results.'' @ [CHR 0x0A, CHR 0x0A] @ str_error e]\<rparr>)
          | Inr u \<Rightarrow> (Inr u, snd r)))"

subsection \<open>Concrete states\<close>

text \<open>The parameter node with the default values of lines 50 to 52.\<close>

definition default_parameterNode :: TresoldSegParameterNode where
  "default_parameterNode =
     \<lparr>inputVolume = None, lowerThreshold = 0, upperThreshold = 100,
      invertThreshold = False, thresholdedVolume = None\<rparr>"

text \<open>
  A widget as \<^verbatim>\<open>setup\<close> leaves it at line 85, before a parameter node is bound: the two
  scene observers of lines 74 and 75 are registered, both selectors hold a volume, the
  engine has not been called.
\<close>

definition example_world :: world where
  "example_world =
     \<lparr>ui = \<lparr>inputSelector_currentNode = Some (VolumeNode ''vtkMRMLScalarVolumeNode1''),
            outputSelector_currentNode = Some (VolumeNode ''vtkMRMLScalarVolumeNode2''),
            lowerThresholdSlider_value = 100,
            upperThresholdSlider_value = 250,
            invertOutputCheckBox_checked = True,
            applyButton_toolTip = [],
            applyButton_enabled = False\<rparr>,
      parameterNode = None,
      parameterNodeGuiTag = None,
      observations = [(MrmlScene, StartCloseEvent, OnSceneStartClose),
                      (MrmlScene, EndCloseEvent, OnSceneEndClose)],
      parameterNodes = (\<lambda>p. default_parameterNode),
      guiConnections = [],
      mrmlScene = [],
      cliRuns = [],
      errorDisplays = []\<rparr>"

text \<open>The same widget bound to parameter node 0, whose two volumes are selected.\<close>

definition ready_world :: world where
  "ready_world =
     example_world
       \<lparr>parameterNode := Some 0,
        parameterNodes := (\<lambda>p. default_parameterNode
           \<lparr>inputVolume := Some (VolumeNode ''vtkMRMLScalarVolumeNode1''),
            thresholdedVolume := Some (VolumeNode ''vtkMRMLScalarVolumeNode2'')\<rparr>)\<rparr>"

text \<open>
  Two engines: one reports completion with errors for every request in \<^verbatim>\<open>Outside\<close> mode
  and plain completion otherwise, the other throws on every request.
\<close>

definition failing_engine :: "cliParams \<Rightarrow> engine_outcome" where
  "failing_engine r =
     (if ThresholdType r = ''Outside'' then Reports CompletedWithErrors else Reports Completed)"


text \<open>
  A rounding that does what the machine's does to the sums it is used on below: the sum
  of \<open>1 / 2 ^ 60\<close> and \<open>100\<close> is not a double and rounds to \<open>100\<close>, the sum of \<open>50\<close> and
  \<open>100\<close> is a double.
\<close>

definition example_rnd :: "real \<Rightarrow> real" where
  "example_rnd x = (if x = 1 / 2 ^ 60 + 100 then 100 else x)"

section \<open>Properties\<close>

subsection \<open>Fresh handles\<close>

lemma fold_max_lower: "a \<le> fold max xs (a::nat)"
proof (induction xs arbitrary: a)
  case Nil
  show ?case by simp
next
  case (Cons x xs)
  have "a \<le> max x a" by simp
  also have "max x a \<le> fold max xs (max x a)" by (rule Cons.IH)
  finally show ?case by simp
qed

lemma fold_max_upper: "x \<in> set xs \<Longrightarrow> x \<le> fold max xs (a::nat)"
proof (induction xs arbitrary: a)
  case Nil
  then show ?case by simp
next
  case (Cons y ys)
  show ?case
  proof (cases "x = y")
    case True
    have "x \<le> max y a" using True by simp
    also have "max y a \<le> fold max ys (max y a)" by (rule fold_max_lower)
    finally show ?thesis by simp
  next
    case False
    with Cons.prems have "x \<in> set ys" by simp
    then have "x \<le> fold max ys (max y a)" by (rule Cons.IH)
    then show ?thesis by simp
  qed
qed

lemma fresh_notin: "fresh xs \<notin> set xs"
proof
  assume "fresh xs \<in> set xs"
  then have "fresh xs \<le> fold max xs 0" by (rule fold_max_upper)
  then show False by (simp add: fresh_def)
qed

lemma fresh_tag_notin: "(p, fresh (map snd cs)) \<notin> set cs"
proof
  assume "(p, fresh (map snd cs)) \<in> set cs"
  then have "snd (p, fresh (map snd cs)) \<in> snd ` set cs" by (rule imageI)
  then have "fresh (map snd cs) \<in> set (map snd cs)" by simp
  then show False using fresh_notin by blast
qed

subsection \<open>The engine call of \<open>process\<close>\<close>

lemma cli_run_simps:
  "mrmlScene (snd (cli_run engine edits params wt upd w)) = mrmlScene w @ [fresh (mrmlScene w)]"
  "cliRuns (snd (cli_run engine edits params wt upd w)) = cliRuns w @ [(params, wt, upd, engine params)]"
  by (simp_all add: cli_run_def Let_def split: engine_outcome.split)

lemma cli_run_reports:
  "engine params = Reports status \<Longrightarrow>
   fst (cli_run engine edits params wt upd w) = Inr (fresh (mrmlScene w))"
  by (simp add: cli_run_def Let_def)

lemma cli_run_throws:
  "engine params = Throws m \<Longrightarrow>
   fst (cli_run engine edits params wt upd w) = Inl (EngineInvocationFailure m)"
  by (simp add: cli_run_def Let_def)

lemma RemoveNode_simps:
  "mrmlScene (RemoveNode n w) = removeAll n (mrmlScene w)"
  "cliRuns (RemoveNode n w) = cliRuns w"
  by (simp_all add: RemoveNode_def)

lemma process_reports:
  "engine \<lparr>InputVolume = GetID i, OutputVolume = GetID out, LowerThreshold = lo,
           UpperThreshold = up, ThresholdType = (if invert then ''Outside'' else ''Between'')\<rparr>
     = Reports status \<Longrightarrow>
   process engine edits (Some i) (Some out) lo up invert showResult w =
     (Inr (), RemoveNode (fresh (mrmlScene w))
        (snd (cli_run engine edits
           \<lparr>InputVolume = GetID i, OutputVolume = GetID out, LowerThreshold = lo,
            UpperThreshold = up, ThresholdType = (if invert then ''Outside'' else ''Between'')\<rparr>
           True showResult w)))"
  by (cases invert) (simp_all add: process_def Let_def cli_run_reports)

lemma process_throws:
  "engine \<lparr>InputVolume = GetID i, OutputVolume = GetID out, LowerThreshold = lo,
           UpperThreshold = up, ThresholdType = (if invert then ''Outside'' else ''Between'')\<rparr>
     = Throws m \<Longrightarrow>
   process engine edits (Some i) (Some out) lo up invert showResult w =
     (Inl (EngineInvocationFailure m),
      snd (cli_run engine edits
           \<lparr>InputVolume = GetID i, OutputVolume = GetID out, LowerThreshold = lo,
            UpperThreshold = up, ThresholdType = (if invert then ''Outside'' else ''Between'')\<rparr>
           True showResult w))"
  by (cases invert) (simp_all add: process_def Let_def cli_run_throws)


lemma process_cliRuns:
  "cliRuns (snd (process engine edits (Some i) (Some out) lo up invert showResult w)) =
     cliRuns w @
       [(\<lparr>InputVolume = GetID i, OutputVolume = GetID out, LowerThreshold = lo,
          UpperThreshold = up, ThresholdType = (if invert then ''Outside'' else ''Between'')\<rparr>,
         True, showResult,
         engine \<lparr>InputVolume = GetID i, OutputVolume = GetID out, LowerThreshold = lo,
           UpperThreshold = up, ThresholdType = (if invert then ''Outside'' else ''Between'')\<rparr>)]"
proof (cases "engine \<lparr>InputVolume = GetID i, OutputVolume = GetID out, LowerThreshold = lo,
           UpperThreshold = up, ThresholdType = (if invert then ''Outside'' else ''Between'')\<rparr>")
  case (Reports status)
  then show ?thesis
    by (simp add: process_reports RemoveNode_simps cli_run_simps)
next
  case (Throws m)
  then show ?thesis
    by (simp add: process_throws cli_run_simps)
qed

text \<open>
  Claim C2. Whenever \<open>process\<close> reaches the engine, the request it hands over has
  \<^verbatim>\<open>ThresholdType\<close> \<^verbatim>\<open>"Between"\<close> when \<open>invert\<close> is false and \<^verbatim>\<open>"Outside"\<close> when it is true,
  and carries the lower and the upper threshold it was given, unchanged. The requests
  made so far are the first components of \<open>cliRuns\<close>.
\<close>

theorem process_threshold_mode:
  "map fst (cliRuns (snd (process engine edits (Some i) (Some out) lo up False showResult w))) =
     map fst (cliRuns w) @
       [\<lparr>InputVolume = GetID i, OutputVolume = GetID out,
         LowerThreshold = lo, UpperThreshold = up, ThresholdType = ''Between''\<rparr>]
   \<and> map fst (cliRuns (snd (process engine edits (Some i) (Some out) lo up True showResult w))) =
     map fst (cliRuns w) @
       [\<lparr>InputVolume = GetID i, OutputVolume = GetID out,
         LowerThreshold = lo, UpperThreshold = up, ThresholdType = ''Outside''\<rparr>]"
  by (simp add: process_cliRuns)

text \<open>
  Claim C3. A call of \<open>process\<close> whose input volume or output volume is \<^verbatim>\<open>None\<close> raises
  \<^verbatim>\<open>ValueError\<close> to its caller and leaves the state as it was: no request is added to
  \<open>cliRuns\<close>, so the engine is not invoked.
\<close>

theorem process_rejects_unset:
  "inputVolume' = None \<or> outputVolume' = None \<Longrightarrow>
   process engine edits inputVolume' outputVolume' lo up invert showResult w =
     (Inl (ValueError ''Input or output volume is invalid''), w)
   \<and> cliRuns (snd (process engine edits inputVolume' outputVolume' lo up invert showResult w)) =
     cliRuns w"
  by (auto simp add: process_def)

theorem process_rejects_unset_witness:
  "((None :: vtkMRMLScalarVolumeNode option) = None \<or> Some (VolumeNode ''vtkMRMLScalarVolumeNode2'') = None)
   \<and> process (\<lambda>r. Reports Completed) (\<lambda>e. e) None (Some (VolumeNode ''vtkMRMLScalarVolumeNode2''))
        100 100 True True example_world =
      (Inl (ValueError ''Input or output volume is invalid''), example_world)
   \<and> cliRuns (snd (process (\<lambda>r. Reports Completed) (\<lambda>e. e) None
        (Some (VolumeNode ''vtkMRMLScalarVolumeNode2'')) 100 100 True True example_world)) = []"
proof -
  have h: "(None :: vtkMRMLScalarVolumeNode option) = None
           \<or> Some (VolumeNode ''vtkMRMLScalarVolumeNode2'') = None" by simp
  show ?thesis
    using process_rejects_unset [OF h, of "\<lambda>r. Reports Completed" "\<lambda>e. e" 100 100 True True example_world]
    by (simp add: example_world_def)
qed





text \<open>
  Claim C6. \<open>onApplyButton\<close> builds the request from the values the controls hold when
  it is called: the two selected nodes, the two slider values and the check box. The
  request handed to the engine is that one whatever happens to the controls and to the
  parameter nodes while the engine runs (\<open>edits\<close> is arbitrary).
\<close>

theorem onApplyButton_snapshot:
  "inputSelector_currentNode (ui w) = Some i \<Longrightarrow> outputSelector_currentNode (ui w) = Some out \<Longrightarrow>
   map fst (cliRuns (snd (onApplyButton engine edits w))) =
     map fst (cliRuns w) @
       [\<lparr>InputVolume = GetID i, OutputVolume = GetID out,
         LowerThreshold = lowerThresholdSlider_value (ui w),
         UpperThreshold = upperThresholdSlider_value (ui w),
         ThresholdType = (if invertOutputCheckBox_checked (ui w) then ''Outside'' else ''Between'')\<rparr>]"
  by (simp add: onApplyButton_def Let_def process_cliRuns split: sum.split)

theorem onApplyButton_snapshot_witness:
  "inputSelector_currentNode (ui example_world) = Some (VolumeNode ''vtkMRMLScalarVolumeNode1'')
   \<and> outputSelector_currentNode (ui example_world) = Some (VolumeNode ''vtkMRMLScalarVolumeNode2'')
   \<and> map fst (cliRuns (snd (onApplyButton failing_engine
        (\<lambda>e. (fst e\<lparr>lowerThresholdSlider_value := 7, invertOutputCheckBox_checked := False\<rparr>, snd e))
        example_world))) =
      [\<lparr>InputVolume = ''vtkMRMLScalarVolumeNode1'', OutputVolume = ''vtkMRMLScalarVolumeNode2'',
        LowerThreshold = 100, UpperThreshold = 250, ThresholdType = ''Outside''\<rparr>]"
proof -
  have h1: "inputSelector_currentNode (ui example_world) = Some (VolumeNode ''vtkMRMLScalarVolumeNode1'')"
    by (simp add: example_world_def)
  have h2: "outputSelector_currentNode (ui example_world) = Some (VolumeNode ''vtkMRMLScalarVolumeNode2'')"
    by (simp add: example_world_def)
  show ?thesis
    using onApplyButton_snapshot [OF h1 h2, of failing_engine
        "\<lambda>e. (fst e\<lparr>lowerThresholdSlider_value := 7, invertOutputCheckBox_checked := False\<rparr>, snd e)"]
    by (simp add: example_world_def)
qed

subsection \<open>The widget\<close>

lemma checkCanApply_frame:
  "guiConnections (checkCanApply w) = guiConnections w"
  "observations (checkCanApply w) = observations w"
  "parameterNode (checkCanApply w) = parameterNode w"
  "parameterNodeGuiTag (checkCanApply w) = parameterNodeGuiTag w"
  "parameterNodes (checkCanApply w) = parameterNodes w"
  by (simp_all add: checkCanApply_def)

text \<open>
  Claim C1. \<open>checkCanApply\<close> is the method registered for the modified event of the bound
  parameter node (line 121). For every state of that node it enables the apply button
  exactly when both \<open>inputVolume\<close> and \<open>thresholdedVolume\<close> are set, with the tool tip
  \<^verbatim>\<open>Compute output volume\<close>; otherwise the button is disabled and the tool tip is
  \<^verbatim>\<open>Select input and output volume nodes\<close>.
\<close>

theorem validity_gate:
  "parameterNode w = Some p \<Longrightarrow>
   applyButton_enabled (ui (checkCanApply w)) =
     (inputVolume (parameterNodes w p) \<noteq> None \<and> thresholdedVolume (parameterNodes w p) \<noteq> None)
   \<and> applyButton_toolTip (ui (checkCanApply w)) =
     (if inputVolume (parameterNodes w p) \<noteq> None \<and> thresholdedVolume (parameterNodes w p) \<noteq> None
      then ''Compute output volume'' else ''Select input and output volume nodes'')"
  by (simp add: checkCanApply_def)

theorem validity_gate_witness:
  "parameterNode ready_world = Some 0
   \<and> applyButton_enabled (ui (checkCanApply ready_world)) = True
   \<and> applyButton_toolTip (ui (checkCanApply ready_world)) = ''Compute output volume''
   \<and> parameterNode (ready_world\<lparr>parameterNodes := (\<lambda>p. default_parameterNode)\<rparr>) = Some 0
   \<and> applyButton_enabled (ui (checkCanApply (ready_world\<lparr>parameterNodes := (\<lambda>p. default_parameterNode)\<rparr>))) = False
   \<and> applyButton_toolTip (ui (checkCanApply (ready_world\<lparr>parameterNodes := (\<lambda>p. default_parameterNode)\<rparr>))) =
       ''Select input and output volume nodes''"
proof -
  have h1: "parameterNode ready_world = Some 0"
    by (simp add: ready_world_def)
  have h2: "parameterNode (ready_world\<lparr>parameterNodes := (\<lambda>p. default_parameterNode)\<rparr>) = Some 0"
    by (simp add: ready_world_def)
  show ?thesis
    using h1 h2 validity_gate [OF h1] validity_gate [OF h2]
    by (simp add: ready_world_def default_parameterNode_def)
qed

subsection \<open>Attaching and detaching\<close>

lemma exit_attached:
  assumes "parameterNode w = Some p" and "parameterNodeGuiTag w = Some t"
  shows "guiConnections (exit w) = removeAll (p, t) (guiConnections w)"
    and "observations (exit w) =
           removeAll (ParameterNodeObj p, ModifiedEvent, CheckCanApply) (observations w)"
    and "parameterNodeGuiTag (exit w) = None"
  using assms by (simp_all add: exit_def disconnectGui_def removeObserver_def)

lemma onSceneStartClose_attached:
  assumes "parameterNode w = Some p" and "parameterNodeGuiTag w = Some t"
  shows "guiConnections (onSceneStartClose w) = removeAll (p, t) (guiConnections w)"
    and "observations (onSceneStartClose w) =
           removeAll (ParameterNodeObj p, ModifiedEvent, CheckCanApply) (observations w)"
    and "parameterNode (onSceneStartClose w) = None"
  using assms
  by (simp_all add: onSceneStartClose_def setParameterNode_def disconnectGui_def removeObserver_def)

lemma setParameterNode_detached:
  assumes "parameterNode w0 = None"
    and "(ParameterNodeObj p, ModifiedEvent, CheckCanApply) \<notin> set (observations w0)"
  shows "parameterNode (setParameterNode (Some p) w0) = Some p"
    and "parameterNodeGuiTag (setParameterNode (Some p) w0) = Some (fresh (map snd (guiConnections w0)))"
    and "guiConnections (setParameterNode (Some p) w0) =
           guiConnections w0 @ [(p, fresh (map snd (guiConnections w0)))]"
    and "observations (setParameterNode (Some p) w0) =
           observations w0 @ [(ParameterNodeObj p, ModifiedEvent, CheckCanApply)]"
  using assms
  by (simp_all add: setParameterNode_def Let_def connectGui_def addObserver_def checkCanApply_frame)

text \<open>
  Claim C8. In a state where a binding is attached (the widget holds parameter node \<open>p\<close>
  and the tag \<open>t\<close> of its GUI connection), \<open>exit\<close> and \<open>onSceneStartClose\<close> each leave
  neither the GUI connection nor the modified-event observer of \<open>checkCanApply\<close> behind,
  and \<open>onSceneStartClose\<close> drops the reference to the node. When the binding was
  attached by \<open>setParameterNode\<close> to a widget \<open>w0\<close> that held no parameter node, the GUI
  connections and the observations after \<open>exit\<close>, and after \<open>onSceneStartClose\<close>, are
  those of \<open>w0\<close>: the registries are back at what they were before attaching.
\<close>

theorem lifecycle_detach:
  "(parameterNode w = Some p \<and> parameterNodeGuiTag w = Some t \<longrightarrow>
      (p, t) \<notin> set (guiConnections (exit w)) \<and>
      (ParameterNodeObj p, ModifiedEvent, CheckCanApply) \<notin> set (observations (exit w)) \<and>
      (p, t) \<notin> set (guiConnections (onSceneStartClose w)) \<and>
      (ParameterNodeObj p, ModifiedEvent, CheckCanApply) \<notin> set (observations (onSceneStartClose w)) \<and>
      parameterNode (onSceneStartClose w) = None)
   \<and> (parameterNode w0 = None \<and>
        (ParameterNodeObj q, ModifiedEvent, CheckCanApply) \<notin> set (observations w0) \<longrightarrow>
      parameterNode (setParameterNode (Some q) w0) = Some q \<and>
      parameterNodeGuiTag (setParameterNode (Some q) w0) \<noteq> None \<and>
      guiConnections (exit (setParameterNode (Some q) w0)) = guiConnections w0 \<and>
      observations (exit (setParameterNode (Some q) w0)) = observations w0 \<and>
      guiConnections (onSceneStartClose (setParameterNode (Some q) w0)) = guiConnections w0 \<and>
      observations (onSceneStartClose (setParameterNode (Some q) w0)) = observations w0)"
proof (intro conjI impI)
  assume a: "parameterNode w = Some p \<and> parameterNodeGuiTag w = Some t"
  then have n: "parameterNode w = Some p" and g: "parameterNodeGuiTag w = Some t" by simp_all
  show "(p, t) \<notin> set (guiConnections (exit w))"
    by (simp add: exit_attached(1)[OF n g])
  show "(ParameterNodeObj p, ModifiedEvent, CheckCanApply) \<notin> set (observations (exit w))"
    by (simp add: exit_attached(2)[OF n g])
  show "(p, t) \<notin> set (guiConnections (onSceneStartClose w))"
    by (simp add: onSceneStartClose_attached(1)[OF n g])
  show "(ParameterNodeObj p, ModifiedEvent, CheckCanApply) \<notin> set (observations (onSceneStartClose w))"
    by (simp add: onSceneStartClose_attached(2)[OF n g])
  show "parameterNode (onSceneStartClose w) = None"
    by (rule onSceneStartClose_attached(3)[OF n g])
next
  assume b: "parameterNode w0 = None \<and>
    (ParameterNodeObj q, ModifiedEvent, CheckCanApply) \<notin> set (observations w0)"
  then have d: "parameterNode w0 = None"
    and o: "(ParameterNodeObj q, ModifiedEvent, CheckCanApply) \<notin> set (observations w0)" by simp_all
  note att = setParameterNode_detached[OF d o]
  show "parameterNode (setParameterNode (Some q) w0) = Some q" by (rule att(1))
  show "parameterNodeGuiTag (setParameterNode (Some q) w0) \<noteq> None" by (simp add: att(2))
  show "guiConnections (exit (setParameterNode (Some q) w0)) = guiConnections w0"
    by (simp add: exit_attached(1)[OF att(1) att(2)] att(3) fresh_tag_notin)
  show "observations (exit (setParameterNode (Some q) w0)) = observations w0"
    by (simp add: exit_attached(2)[OF att(1) att(2)] att(4) o)
  show "guiConnections (onSceneStartClose (setParameterNode (Some q) w0)) = guiConnections w0"
    by (simp add: onSceneStartClose_attached(1)[OF att(1) att(2)] att(3) fresh_tag_notin)
  show "observations (onSceneStartClose (setParameterNode (Some q) w0)) = observations w0"
    by (simp add: onSceneStartClose_attached(2)[OF att(1) att(2)] att(4) o)
qed

lemma attached_example:
  "parameterNode (setParameterNode (Some 0) example_world) = Some 0"
  "parameterNodeGuiTag (setParameterNode (Some 0) example_world) = Some 1"
  "guiConnections (setParameterNode (Some 0) example_world) = [(0, 1)]"
  "observations (setParameterNode (Some 0) example_world) =
     [(MrmlScene, StartCloseEvent, OnSceneStartClose), (MrmlScene, EndCloseEvent, OnSceneEndClose),
      (ParameterNodeObj 0, ModifiedEvent, CheckCanApply)]"
  by (simp_all add: setParameterNode_def Let_def connectGui_def addObserver_def checkCanApply_frame
      example_world_def fresh_def)

theorem lifecycle_detach_witness:
  "parameterNode (setParameterNode (Some 0) example_world) = Some 0
   \<and> parameterNodeGuiTag (setParameterNode (Some 0) example_world) = Some 1
   \<and> guiConnections (setParameterNode (Some 0) example_world) = [(0, 1)]
   \<and> (0, 1) \<notin> set (guiConnections (exit (setParameterNode (Some 0) example_world)))
   \<and> (ParameterNodeObj 0, ModifiedEvent, CheckCanApply) \<notin>
       set (observations (onSceneStartClose (setParameterNode (Some 0) example_world)))
   \<and> parameterNode example_world = None
   \<and> (ParameterNodeObj 0, ModifiedEvent, CheckCanApply) \<notin> set (observations example_world)
   \<and> guiConnections (exit (setParameterNode (Some 0) example_world)) = []
   \<and> observations (exit (setParameterNode (Some 0) example_world)) = observations example_world
   \<and> guiConnections (onSceneStartClose (setParameterNode (Some 0) example_world)) = []
   \<and> observations (onSceneStartClose (setParameterNode (Some 0) example_world)) =
       observations example_world"
proof -
  have d: "parameterNode example_world = None"
    and o: "(ParameterNodeObj 0, ModifiedEvent, CheckCanApply) \<notin> set (observations example_world)"
    and c: "guiConnections example_world = []"
    by (simp_all add: example_world_def)
  show ?thesis
    using lifecycle_detach [of "setParameterNode (Some 0) example_world" 0 1 example_world 0]
      attached_example d o c
    by simp
qed

subsection \<open>The combined threshold slider\<close>

lemma set_threshold_simps:
  "WithinRange (- 100) 500 v = Inr a \<Longrightarrow>
   set_lowerThreshold WithinRange p v w =
     (Inr (), w\<lparr>parameterNodes := (parameterNodes w)(p := (parameterNodes w p)\<lparr>lowerThreshold := a\<rparr>)\<rparr>)"
  "WithinRange (- 100) 500 v = Inr a \<Longrightarrow>
   set_upperThreshold WithinRange p v w =
     (Inr (), w\<lparr>parameterNodes := (parameterNodes w)(p := (parameterNodes w p)\<lparr>upperThreshold := a\<rparr>)\<rparr>)"
  by (simp_all add: set_lowerThreshold_def set_upperThreshold_def)

text \<open>
  Claim C10. With no parameter node bound, \<open>onThresholdSliderChanged\<close> changes nothing.
  With parameter node \<open>p\<close> bound, a value \<open>v\<close> from the slider is assigned to
  \<open>lowerThreshold\<close> and the sum of \<open>v\<close> and \<open>100\<close> to \<open>upperThreshold\<close>, each through the range
  validation of its field. The sum is the sum of doubles, \<open>rnd (v + 100)\<close>, for whatever
  rounding \<open>rnd\<close> the machine applies. When the validation stores \<open>a\<close> for \<open>v\<close> and \<open>b\<close> for the
  sum, the node ends with \<open>lowerThreshold = a\<close> and \<open>upperThreshold = b\<close> and is otherwise
  unchanged. Under the clamping policy the two stored values are \<open>v\<close> and the sum, each
  clamped to the declared range from -100 to 500.
\<close>

theorem onThresholdSliderChanged_linked:
  "(parameterNode w = None \<longrightarrow> onThresholdSliderChanged WithinRange rnd v w = (Inr (), w))
   \<and> (parameterNode w = Some p \<and> WithinRange (- 100) 500 v = Inr a \<and>
        WithinRange (- 100) 500 (rnd (v + 100)) = Inr b \<longrightarrow>
      onThresholdSliderChanged WithinRange rnd v w =
        (Inr (), w\<lparr>parameterNodes :=
           (parameterNodes w)(p := (parameterNodes w p)\<lparr>lowerThreshold := a, upperThreshold := b\<rparr>)\<rparr>))
   \<and> (parameterNode w = Some p \<longrightarrow>
      onThresholdSliderChanged clamp_silently rnd v w =
        (Inr (), w\<lparr>parameterNodes :=
           (parameterNodes w)(p := (parameterNodes w p)
              \<lparr>lowerThreshold := max (- 100) (min 500 v),
               upperThreshold := max (- 100) (min 500 (rnd (v + 100)))\<rparr>)\<rparr>))"
  by (simp add: onThresholdSliderChanged_def set_threshold_simps clamp_silently_def)

theorem onThresholdSliderChanged_linked_witness:
  "parameterNode example_world = None
   \<and> onThresholdSliderChanged clamp_silently example_rnd (1 / 2 ^ 60) example_world =
       (Inr (), example_world)
   \<and> parameterNode ready_world = Some 0
   \<and> clamp_silently (- 100) 500 (1 / 2 ^ 60) = Inr (1 / 2 ^ 60)
   \<and> clamp_silently (- 100) 500 (example_rnd (1 / 2 ^ 60 + 100)) = Inr 100
   \<and> lowerThreshold (parameterNodes
        (snd (onThresholdSliderChanged clamp_silently example_rnd (1 / 2 ^ 60) ready_world)) 0) = 1 / 2 ^ 60
   \<and> upperThreshold (parameterNodes
        (snd (onThresholdSliderChanged clamp_silently example_rnd (1 / 2 ^ 60) ready_world)) 0) = 100"
proof -
  have h0: "parameterNode example_world = None" by (simp add: example_world_def)
  have h1: "parameterNode ready_world = Some 0" by (simp add: ready_world_def)
  have h2: "clamp_silently (- 100) 500 (1 / 2 ^ 60) = Inr (1 / 2 ^ 60)"
    by (simp add: clamp_silently_def)
  have h3: "clamp_silently (- 100) 500 (example_rnd (1 / 2 ^ 60 + 100)) = Inr 100"
    by (simp add: clamp_silently_def example_rnd_def)
  show ?thesis
    using h0 h1 h2 h3
      onThresholdSliderChanged_linked [of example_world clamp_silently example_rnd "1 / 2 ^ 60" 0 "1 / 2 ^ 60" 100]
      onThresholdSliderChanged_linked [of ready_world clamp_silently example_rnd "1 / 2 ^ 60" 0 "1 / 2 ^ 60" 100]
    by simp
qed

end
